theory Spec2Isabelle
  imports Complex_Main "HOL-Library.Sublist"
begin

section \<open>The upload page: \<^verbatim>\<open>app/static/js/upload.js\<close>\<close>

text \<open>
  The file tracks one CSV import through a WebSocket and, after a socket failure, through
  a polling timer. All handlers run on the single browser event loop, so each handler is a
  function from the page state to the page state; what the network and the server
  deliver (frames, close codes, HTTP answers) is the handler's argument.

  The source file holds an earlier revision of the page followed by the current one; the
  definitions follow the current one (from the second \<^verbatim>\<open>let currentUploadTaskId\<close> on).

  JavaScript numbers that are only displayed are kept as rationals (\<open>progress\<close>) or
  naturals (row counts); text interpolated into \<^verbatim>\<open>innerHTML\<close> is kept as the list of
  elements the template literals build, one constructor per template.
\<close>

type_synonym task_id = string
type_synonym js_number = rat

subsection \<open>Data\<close>

text \<open>
  One element of an \<^verbatim>\<open>errors\<close> array: a JSON object with optional fields
  \<^verbatim>\<open>batch_error\<close>, \<^verbatim>\<open>error\<close> and \<^verbatim>\<open>row\<close>, a JSON string, or any other non-null
  value.
\<close>

datatype upload_error =
    ErrorObject "string option" "string option" "nat option"
  | ErrorString string
  | ErrorOther

text \<open>What \<^verbatim>\<open>JSON.parse\<close> returns when it does not throw: an array of errors or some other value.\<close>

datatype json_value = JsonArray "upload_error list" | JsonOther

text \<open>
  \<^verbatim>\<open>JSON.parse\<close> on the texts that the handlers decode is a primitive of the host; the
  handlers take it as the parameter \<open>parse\<close>, with \<open>None\<close> for a thrown SyntaxError.
\<close>

type_synonym json_parse = "string \<Rightarrow> json_value option"

text \<open>A frame received on the socket: \<^verbatim>\<open>JSON.parse(event.data)\<close> and its \<^verbatim>\<open>type\<close> field.\<close>

datatype ws_frame =
    Malformed
  | Connected task_id
  | Progress js_number nat nat "upload_error list option"
  | Complete bool string
  | Pong
  | Unrecognized

datatype ready_state = CONNECTING | OPEN | CLOSING | CLOSED

datatype close_call = NoCode | Code nat

record websocket =
  ws_task :: task_id
  readyState :: ready_state
  close_request :: "close_call option"

text \<open>The children of \<^verbatim>\<open>#upload-errors\<close>: each is a \<^verbatim>\<open><div class="error-item">\<close>.\<close>

datatype error_item =
    SystemItem string
  | RowItem "nat option" string
  | TextItem string
  | UnknownItem
  | MoreItem nat

datatype detail_line =
    SystemLine string
  | RowLine "nat option" string
  | UnknownLine upload_error

text \<open>The children of \<^verbatim>\<open>#upload-result\<close>: each is a \<^verbatim>\<open><div class="result-message ...">\<close>.\<close>

datatype result_html =
    ResultSuccess string
  | ResultError string
  | ResultErrorDetails nat "detail_line list" "nat option"
  | ResultUploadFailed string

record upload_state =
  currentUploadTaskId :: "task_id option"
  uploadWebSocket :: "nat option"
  sockets :: "websocket list"
  intervals :: "(nat \<times> task_id) list"
  next_interval :: nat
  progress_container_shown :: bool
  hide_timeouts :: nat
  progress_fill_width :: js_number
  progress_text :: js_number
  progress_details :: "nat \<times> nat"
  upload_errors :: "error_item list"
  upload_result :: "result_html list"
  toasts :: "(string \<times> string) list"
  recentUpload :: bool
  products_tab_active :: bool
  products_tab_has_updates :: bool
  loadProducts_calls :: nat
  complete_calls :: "(bool \<times> string) list"

text \<open>
  \<open>uploadWebSocket\<close> refers to a socket by its position in \<open>sockets\<close> (sockets are only ever
  added). \<open>intervals\<close> holds the running polling timers with the task identifier their
  callback closes over. \<open>toasts\<close> and \<open>complete_calls\<close> record, in order, the calls of
  \<^verbatim>\<open>showToast\<close> and \<^verbatim>\<open>handleUploadComplete\<close>; \<open>hide_timeouts\<close> counts the pending
  \<^verbatim>\<open>setTimeout\<close> callbacks that hide the progress bar.
\<close>

definition init_state :: upload_state where
  "init_state =
     \<lparr> currentUploadTaskId = None, uploadWebSocket = None, sockets = [], intervals = [],
       next_interval = 0, progress_container_shown = False, hide_timeouts = 0,
       progress_fill_width = 0, progress_text = 0, progress_details = (0, 0),
       upload_errors = [], upload_result = [], toasts = [], recentUpload = False,
       products_tab_active = False, products_tab_has_updates = False,
       loadProducts_calls = 0, complete_calls = [] \<rparr>"

subsection \<open>Helpers of the host\<close>

text \<open>\<^verbatim>\<open>String(n)\<close> for a non-negative integer.\<close>

definition digit_char :: "nat \<Rightarrow> char" where
  "digit_char d = ''0123456789'' ! (d mod 10)"

fun show_nat :: "nat \<Rightarrow> string" where
  "show_nat n = (if n < 10 then [digit_char n] else show_nat (n div 10) @ [digit_char n])"

declare show_nat.simps [simp del]

definition starts_with :: "string \<Rightarrow> string \<Rightarrow> bool" where
  "starts_with p t = (take (length p) t = p)"

text \<open>
  Truthiness of an optional string, and \<^verbatim>\<open>v || d\<close>: the empty string, \<^verbatim>\<open>null\<close> and
  \<^verbatim>\<open>undefined\<close> are falsy.
\<close>

definition truthy :: "string option \<Rightarrow> bool" where
  "truthy v = (case v of None \<Rightarrow> False | Some t \<Rightarrow> t \<noteq> [])"

definition or_else :: "string option \<Rightarrow> string \<Rightarrow> string" where
  "or_else v d = (case v of None \<Rightarrow> d | Some t \<Rightarrow> if t = [] then d else t)"

definition showToast :: "string \<Rightarrow> string \<Rightarrow> upload_state \<Rightarrow> upload_state" where
  "showToast message kind s = s\<lparr>toasts := toasts s @ [(message, kind)]\<rparr>"

text \<open>\<^verbatim>\<open>loadProducts()\<close> of the products page starts a fetch; here only the call is counted.\<close>

definition loadProducts :: "upload_state \<Rightarrow> upload_state" where
  "loadProducts s = s\<lparr>loadProducts_calls := Suc (loadProducts_calls s)\<rparr>"

text \<open>
  \<^verbatim>\<open>WebSocket.close(code)\<close>: a socket that is already closing or closed ignores the call;
  otherwise the closing handshake starts with the code given, or with none.
\<close>

definition ws_close :: "nat \<Rightarrow> close_call \<Rightarrow> upload_state \<Rightarrow> upload_state" where
  "ws_close w c s =
     (if w < length (sockets s) then
        (let sock = sockets s ! w in
         if readyState sock = CLOSING \<or> readyState sock = CLOSED then s
         else s\<lparr>sockets := (sockets s)[w := sock\<lparr>readyState := CLOSING, close_request := Some c\<rparr>]\<rparr>)
      else s)"

definition clearInterval :: "nat \<Rightarrow> upload_state \<Rightarrow> upload_state" where
  "clearInterval i s = s\<lparr>intervals := filter (\<lambda>p. fst p \<noteq> i) (intervals s)\<rparr>"

subsection \<open>updateProgress, displayErrors\<close>

definition updateProgress :: "js_number \<Rightarrow> nat \<Rightarrow> nat \<Rightarrow> upload_state \<Rightarrow> upload_state" where
  "updateProgress progress processed total_rows s =
     s\<lparr>progress_fill_width := progress,
       progress_text := progress,
       progress_details := (processed, total_rows)\<rparr>"

definition row_item :: "string option \<Rightarrow> nat option \<Rightarrow> error_item" where
  "row_item e r =
     (case e of
        None \<Rightarrow> UnknownItem
      | Some et \<Rightarrow> if et \<noteq> [] then RowItem r et else UnknownItem)"

fun error_item_of :: "upload_error \<Rightarrow> error_item" where
  "error_item_of (ErrorObject b e r) =
     (case b of
        None \<Rightarrow> row_item e r
      | Some bt \<Rightarrow> if bt \<noteq> [] then SystemItem bt else row_item e r)"
| "error_item_of (ErrorString t) = TextItem t"
| "error_item_of ErrorOther = UnknownItem"

definition displayErrors :: "upload_error list \<Rightarrow> upload_state \<Rightarrow> upload_state" where
  "displayErrors errors s =
     (if truthy (currentUploadTaskId s) \<and> errors \<noteq> [] then
        (let s1 = s\<lparr>upload_errors := map error_item_of (take 10 errors)\<rparr> in
         if length errors > 10
         then s1\<lparr>upload_errors := upload_errors s1 @ [MoreItem (length errors - 10)]\<rparr>
         else s1)
      else s)"

subsection \<open>handleUploadComplete\<close>

fun first_error_text :: "upload_error list \<Rightarrow> string" where
  "first_error_text (ErrorObject b e r # rest) = or_else e ''Unknown error''"
| "first_error_text errors = ''Unknown error''"

definition row_line :: "upload_error \<Rightarrow> string option \<Rightarrow> nat option \<Rightarrow> detail_line" where
  "row_line err e r =
     (case e of
        None \<Rightarrow> UnknownLine err
      | Some et \<Rightarrow> if et \<noteq> [] then RowLine r et else UnknownLine err)"

fun detail_line_of :: "upload_error \<Rightarrow> detail_line" where
  "detail_line_of (ErrorObject b e r) =
     (case b of
        None \<Rightarrow> row_line (ErrorObject b e r) e r
      | Some bt \<Rightarrow> if bt \<noteq> [] then SystemLine bt else row_line (ErrorObject b e r) e r)"
| "detail_line_of err = UnknownLine err"

text \<open>
  The failure branch: the pair of what is written to \<^verbatim>\<open>#upload-result\<close> and the final
  \<^verbatim>\<open>errorMessage\<close>. A thrown \<^verbatim>\<open>JSON.parse\<close> lands in the \<^verbatim>\<open>catch\<close>, which shows the
  message as it was.
\<close>

definition failure_result :: "json_parse \<Rightarrow> string \<Rightarrow> result_html \<times> string" where
  "failure_result parse message =
     (let errorMessage = (if message = [] then ''Upload failed'' else message) in
      if starts_with ''[{'' message then
        (case parse message of
           None \<Rightarrow> (ResultError errorMessage, errorMessage)
         | Some JsonOther \<Rightarrow> (ResultError errorMessage, errorMessage)
         | Some (JsonArray errors) \<Rightarrow>
             if errors \<noteq> [] then
               (ResultErrorDetails (length errors) (map detail_line_of (take 5 errors))
                  (if length errors > 5 then Some (length errors - 5) else None),
                ''Failed: '' @ first_error_text errors)
             else (ResultError errorMessage, errorMessage))
      else (ResultError errorMessage, errorMessage))"

definition handleUploadComplete ::
  "json_parse \<Rightarrow> bool \<Rightarrow> string \<Rightarrow> upload_state \<Rightarrow> upload_state" where
  "handleUploadComplete parse success message s =
     (let s1 = (case uploadWebSocket s of
                  None \<Rightarrow> s
                | Some w \<Rightarrow> (ws_close w (Code 1000) s)\<lparr>uploadWebSocket := None\<rparr>);
          s2 = s1\<lparr>upload_errors := []\<rparr>;
          s3 = (if success then
                  (let a = s2\<lparr>upload_result := [ResultSuccess message]\<rparr>;
                       b = showToast ''Upload completed successfully!'' ''success'' a;
                       c = b\<lparr>recentUpload := True\<rparr>;
                       d = (if \<not> products_tab_active c
                            then c\<lparr>products_tab_has_updates := True\<rparr> else c)
                   in loadProducts d)
                else
                  (let r = failure_result parse message;
                       a = s2\<lparr>upload_result := [fst r]\<rparr>
                   in showToast (''Upload failed: '' @ snd r) ''error'' a))
      in s3\<lparr>hide_timeouts := Suc (hide_timeouts s3),
            currentUploadTaskId := None,
            complete_calls := complete_calls s3 @ [(success, message)]\<rparr>)"

subsection \<open>pollUploadStatus\<close>

record task_payload =
  task_status :: string
  task_progress :: js_number
  task_processed_rows :: nat
  task_total_rows :: nat
  task_errors :: "string option"

text \<open>
  The outcome of one status fetch: the fetch rejects, the answer is not 2xx, its body is
  not JSON, or it is a task object. \<open>task_errors\<close> is absent or a string.
\<close>

datatype status_response = FetchFailed | StatusNotOk | StatusBodyNotJson | TaskStatus task_payload

definition pollUploadStatus :: "task_id \<Rightarrow> upload_state \<Rightarrow> upload_state" where
  "pollUploadStatus taskId s =
     s\<lparr>intervals := intervals s @ [(next_interval s, taskId)],
       next_interval := Suc (next_interval s)\<rparr>"

text \<open>
  The part of the timer callback that handles \<^verbatim>\<open>task.errors\<close>. A value that decodes to
  something other than an array either fails the guard of \<^verbatim>\<open>displayErrors\<close> or throws in
  it before anything is written; the inner \<^verbatim>\<open>catch\<close> swallows that like a SyntaxError.
\<close>

definition poll_errors :: "json_parse \<Rightarrow> string option \<Rightarrow> upload_state \<Rightarrow> upload_state" where
  "poll_errors parse errs s =
     (case errs of
        None \<Rightarrow> s
      | Some text \<Rightarrow>
          if text = [] then s
          else (case parse text of
                  None \<Rightarrow> s
                | Some JsonOther \<Rightarrow> s
                | Some (JsonArray errors) \<Rightarrow> displayErrors errors s))"

text \<open>One run of the timer callback of interval \<open>interval\<close>, given the outcome of its fetch.\<close>

definition poll_tick :: "json_parse \<Rightarrow> nat \<Rightarrow> status_response \<Rightarrow> upload_state \<Rightarrow> upload_state" where
  "poll_tick parse interval response s =
     (case response of
        FetchFailed \<Rightarrow> s
      | StatusNotOk \<Rightarrow> s
      | StatusBodyNotJson \<Rightarrow> s
      | TaskStatus task \<Rightarrow>
          (let s1 = updateProgress (task_progress task) (task_processed_rows task)
                      (task_total_rows task) s;
               s2 = poll_errors parse (task_errors task) s1
           in if task_status task = ''completed'' \<or> task_status task = ''failed'' then
                (let s3 = clearInterval interval s2;
                     s4 = (case uploadWebSocket s3 of
                             None \<Rightarrow> s3
                           | Some w \<Rightarrow> ws_close w NoCode s3)
                 in handleUploadComplete parse (task_status task = ''completed'')
                      (if task_status task = ''completed''
                       then ''Successfully processed '' @ show_nat (task_processed_rows task)
                              @ '' products''
                       else or_else (task_errors task) ''Upload failed'')
                      s4)
              else s2))"

subsection \<open>connectWebSocket and its handlers\<close>

text \<open>
  The keepalive timer of \<^verbatim>\<open>connectWebSocket\<close> only sends \<^verbatim>\<open>'ping'\<close> and clears itself; it
  writes none of the state kept here and is left out.
\<close>

definition connectWebSocket :: "task_id \<Rightarrow> upload_state \<Rightarrow> upload_state" where
  "connectWebSocket taskId s =
     s\<lparr>sockets := sockets s @ [\<lparr>ws_task = taskId, readyState = CONNECTING, close_request = None\<rparr>],
       uploadWebSocket := Some (length (sockets s))\<rparr>"

definition ws_onmessage :: "json_parse \<Rightarrow> ws_frame \<Rightarrow> upload_state \<Rightarrow> upload_state" where
  "ws_onmessage parse frame s =
     (case frame of
        Malformed \<Rightarrow> s
      | Connected t \<Rightarrow> s
      | Progress progress processed total_rows errs \<Rightarrow>
          (let s1 = updateProgress progress processed total_rows s in
           case errs of
             None \<Rightarrow> s1
           | Some errors \<Rightarrow> if length errors > 0 then displayErrors errors s1 else s1)
      | Complete success message \<Rightarrow> handleUploadComplete parse success message s
      | Pong \<Rightarrow> s
      | Unrecognized \<Rightarrow> s)"

definition ws_onerror :: "task_id \<Rightarrow> upload_state \<Rightarrow> upload_state" where
  "ws_onerror taskId s =
     pollUploadStatus taskId
       (showToast ''Connection error - falling back to polling'' ''warning'' s)"

definition ws_onclose :: "task_id \<Rightarrow> nat \<Rightarrow> upload_state \<Rightarrow> upload_state" where
  "ws_onclose taskId code s = (if code \<noteq> 1000 then pollUploadStatus taskId s else s)"

subsection \<open>handleFileUpload\<close>

text \<open>
  The outcome of the upload request: the fetch rejects with a message; the answer is not
  2xx and carries a JSON body with an optional \<^verbatim>\<open>detail\<close>; not 2xx with a body whose
  decoding throws; 2xx with a task identifier; 2xx with a body whose decoding throws.
\<close>

datatype upload_response =
    NetworkError string
  | HttpError "string option"
  | HttpErrorBody string
  | Created task_id
  | CreatedBody string

definition upload_failed :: "string \<Rightarrow> upload_state \<Rightarrow> upload_state" where
  "upload_failed message s =
     (showToast (''Upload failed: '' @ message) ''error'' s)
       \<lparr>progress_container_shown := False,
        upload_result := [ResultUploadFailed message]\<rparr>"

definition handleFileUpload :: "upload_response \<Rightarrow> upload_state \<Rightarrow> upload_state" where
  "handleFileUpload response s =
     (let s1 = updateProgress 0 0 0
                 (s\<lparr>progress_container_shown := True, upload_result := [], upload_errors := []\<rparr>)
      in case response of
           NetworkError m \<Rightarrow> upload_failed m s1
         | HttpError detail \<Rightarrow> upload_failed (or_else detail ''Upload failed'') s1
         | HttpErrorBody m \<Rightarrow> upload_failed m s1
         | CreatedBody m \<Rightarrow> upload_failed m s1
         | Created taskId \<Rightarrow> connectWebSocket taskId (s1\<lparr>currentUploadTaskId := Some taskId\<rparr>))"

subsection \<open>The event loop\<close>

datatype event =
    Upload upload_response
  | WsOpen nat
  | WsMessage nat ws_frame
  | WsError nat
  | WsClose nat nat
  | PollTick nat status_response
  | HideProgress

definition set_ready :: "nat \<Rightarrow> ready_state \<Rightarrow> upload_state \<Rightarrow> upload_state" where
  "set_ready w r s = s\<lparr>sockets := (sockets s)[w := (sockets s ! w)\<lparr>readyState := r\<rparr>]\<rparr>"

text \<open>
  An event of a socket is dispatched to the handlers that \<^verbatim>\<open>connectWebSocket\<close> attached to
  that socket, with the task identifier they close over; a timer fires only while its
  interval has not been cleared. A tick stands for the whole callback, the fetch and what
  follows it. The events of a socket are not ordered: any frame, error or close code may
  come in any state, as the handlers themselves assume nothing about it.
\<close>

definition step :: "json_parse \<Rightarrow> event \<Rightarrow> upload_state \<Rightarrow> upload_state" where
  "step parse ev s =
     (case ev of
        Upload response \<Rightarrow> handleFileUpload response s
      | WsOpen w \<Rightarrow> if w < length (sockets s) then set_ready w OPEN s else s
      | WsMessage w frame \<Rightarrow> if w < length (sockets s) then ws_onmessage parse frame s else s
      | WsError w \<Rightarrow>
          if w < length (sockets s) then ws_onerror (ws_task (sockets s ! w)) s else s
      | WsClose w code \<Rightarrow>
          if w < length (sockets s)
          then ws_onclose (ws_task (sockets s ! w)) code (set_ready w CLOSED s) else s
      | PollTick i response \<Rightarrow>
          if i \<in> set (map fst (intervals s)) then poll_tick parse i response s else s
      | HideProgress \<Rightarrow>
          if hide_timeouts s > 0
          then s\<lparr>hide_timeouts := hide_timeouts s - 1, progress_container_shown := False\<rparr>
          else s)"

fun run :: "json_parse \<Rightarrow> event list \<Rightarrow> upload_state \<Rightarrow> upload_state" where
  "run parse [] s = s"
| "run parse (ev # evs) s = run parse evs (step parse ev s)"

section \<open>The products page: delete all, in \<^verbatim>\<open>app/static/js/app.js\<close>\<close>

text \<open>
  \<^verbatim>\<open>String.prototype.trim\<close> removes white space and line terminators at both ends. A
  \<open>char\<close> is one byte, read here as a Latin-1 code point: tab, line feed, vertical tab, form
  feed, carriage return, space and no-break space.
\<close>

definition js_whitespace :: "char \<Rightarrow> bool" where
  "js_whitespace c =
     (c \<in> set [CHR 0x09, CHR 0x0A, CHR 0x0B, CHR 0x0C, CHR 0x0D, CHR 0x20, CHR 0xA0])"

definition js_trim :: "string \<Rightarrow> string" where
  "js_trim t = rev (dropWhile js_whitespace (rev (dropWhile js_whitespace t)))"

record products_state =
  deleteAllModal_present :: bool
  deleteAllModal_shown :: bool
  deleteAllConfirmInput_value :: string
  confirmDeleteAllBtn_disabled :: bool
  confirmDeleteAllBtn_text :: string
  delete_all_requests :: nat
  select_all_checked :: bool
  currentPage :: nat
  products_loads :: nat
  page_toasts :: "(string \<times> string) list"

text \<open>
  \<open>delete_all_requests\<close> counts the \<^verbatim>\<open>DELETE /products/delete-all\<close> requests sent,
  \<open>products_loads\<close> the calls of \<^verbatim>\<open>loadProducts\<close>, \<open>page_toasts\<close> the calls of \<^verbatim>\<open>showToast\<close>.
\<close>

definition page_toast :: "string \<Rightarrow> string \<Rightarrow> products_state \<Rightarrow> products_state" where
  "page_toast message kind s = s\<lparr>page_toasts := page_toasts s @ [(message, kind)]\<rparr>"

definition openDeleteAllModal :: "products_state \<Rightarrow> products_state" where
  "openDeleteAllModal s =
     (if \<not> deleteAllModal_present s then s
      else s\<lparr>deleteAllConfirmInput_value := [],
             confirmDeleteAllBtn_disabled := True,
             deleteAllModal_shown := True\<rparr>)"

definition closeDeleteAllModal :: "products_state \<Rightarrow> products_state" where
  "closeDeleteAllModal s =
     (if \<not> deleteAllModal_present s then s else s\<lparr>deleteAllModal_shown := False\<rparr>)"

text \<open>The \<^verbatim>\<open>input\<close> event: the field now holds \<open>v\<close>, and the handler reads it back.\<close>

definition onDeleteAllInput :: "string \<Rightarrow> products_state \<Rightarrow> products_state" where
  "onDeleteAllInput v s =
     (let s1 = s\<lparr>deleteAllConfirmInput_value := v\<rparr>
      in s1\<lparr>confirmDeleteAllBtn_disabled := (js_trim v \<noteq> ''DELETE'')\<rparr>)"

text \<open>
  The outcome of the delete request: the fetch rejects with a message; the answer is not
  2xx, with the \<^verbatim>\<open>detail\<close> of its body if the body decodes and has one; 2xx with the
  number deleted; 2xx with a body whose decoding throws.
\<close>

datatype delete_response =
    DeleteNetworkError string
  | DeleteNotOk "string option"
  | Deleted nat
  | DeletedBody string

definition performDeleteAll :: "delete_response \<Rightarrow> products_state \<Rightarrow> products_state" where
  "performDeleteAll response s =
     (if js_trim (deleteAllConfirmInput_value s) \<noteq> ''DELETE'' then s
      else
        (let s1 = s\<lparr>confirmDeleteAllBtn_disabled := True,
                     confirmDeleteAllBtn_text := ''Deleting...'',
                     delete_all_requests := Suc (delete_all_requests s)\<rparr>;
             s2 = (case response of
                     DeleteNetworkError m \<Rightarrow> page_toast (''Delete all failed: '' @ m) ''error'' s1
                   | DeleteNotOk detail \<Rightarrow>
                       page_toast (''Delete all failed: '' @ or_else detail ''Delete all failed'')
                         ''error'' s1
                   | DeletedBody m \<Rightarrow> page_toast (''Delete all failed: '' @ m) ''error'' s1
                   | Deleted n \<Rightarrow>
                       (let a = page_toast (''Deleted '' @ show_nat n @ '' products.'') ''success'' s1;
                            b = a\<lparr>select_all_checked := False, currentPage := 1\<rparr>;
                            c = b\<lparr>products_loads := Suc (products_loads b)\<rparr>
                        in closeDeleteAllModal c))
         in s2\<lparr>confirmDeleteAllBtn_disabled := False,
                confirmDeleteAllBtn_text := ''Delete All''\<rparr>))"

section \<open>Notions used in the statements\<close>

text \<open>A decoder that throws on every text: the host's \<^verbatim>\<open>JSON.parse\<close> on pages whose
  decoded texts (such as \<^verbatim>\<open>disk full\<close>) are not JSON.\<close>

definition not_json :: json_parse where
  "not_json text = None"





text \<open>An upload answer that yields no task identifier.\<close>

fun rejected :: "upload_response \<Rightarrow> bool" where
  "rejected (Created taskId) = False"
| "rejected response = True"

subsection \<open>Sample inputs\<close>




text \<open>Status answers: the finished import, and an import whose \<^verbatim>\<open>errors\<close> text is not JSON.\<close>

definition completed_500 :: task_payload where
  "completed_500 =
     \<lparr>task_status = ''completed'', task_progress = 100, task_processed_rows = 500,
      task_total_rows = 500, task_errors = None\<rparr>"



definition processing_250 :: task_payload where
  "processing_250 =
     \<lparr>task_status = ''processing'', task_progress = 50, task_processed_rows = 250,
      task_total_rows = 500, task_errors = None\<rparr>"

text \<open>The products page with the delete-all dialog closed.\<close>

definition products_init :: products_state where
  "products_init =
     \<lparr> deleteAllModal_present = True, deleteAllModal_shown = False,
       deleteAllConfirmInput_value = [], confirmDeleteAllBtn_disabled = True,
       confirmDeleteAllBtn_text = ''Delete All'', delete_all_requests = 0,
       select_all_checked = False, currentPage = 1, products_loads = 0, page_toasts = [] \<rparr>"

section \<open>What each function leaves alone\<close>
















section \<open>Progress display\<close>





section \<open>Fallback to polling\<close>

text \<open>
  C2. When a socket closes with code 1000 no polling timer is started; when it closes with
  any other code, or reports an error, a polling timer for the socket's task is started.
\<close>

theorem streaming_close_fallback:
  assumes "w < length (sockets s)"
  shows "intervals (step parse (WsClose w 1000) s) = intervals s \<and>
         (code \<noteq> 1000 \<longrightarrow>
            intervals (step parse (WsClose w code) s) =
              intervals s @ [(next_interval s, ws_task (sockets s ! w))]) \<and>
         intervals (step parse (WsError w) s) =
           intervals s @ [(next_interval s, ws_task (sockets s ! w))]"
  using assms
  by (simp add: step_def ws_onclose_def ws_onerror_def pollUploadStatus_def set_ready_def
      showToast_def)

theorem streaming_close_fallback_witness:
  "0 < length (sockets (handleFileUpload (Created ''T1'') init_state)) \<and>
   intervals (step not_json (WsClose 0 1000) (handleFileUpload (Created ''T1'') init_state)) = [] \<and>
   intervals (step not_json (WsClose 0 1006) (handleFileUpload (Created ''T1'') init_state)) =
     [(0, ''T1'')] \<and>
   intervals (step not_json (WsError 0) (handleFileUpload (Created ''T1'') init_state)) =
     [(0, ''T1'')]"
proof -
  let ?s = "handleFileUpload (Created ''T1'') init_state"
  have len: "0 < length (sockets ?s)"
    by (simp add: handleFileUpload_def connectWebSocket_def updateProgress_def init_state_def)
  have vals: "intervals ?s = []" "next_interval ?s = 0" "ws_task (sockets ?s ! 0) = ''T1''"
    by (simp_all add: handleFileUpload_def connectWebSocket_def updateProgress_def init_state_def)
  show ?thesis
    using len streaming_close_fallback [OF len, of not_json 1006] by (simp add: vals)
qed

section \<open>Completion\<close>







text \<open>
  A run with one source of terminal events: the socket delivers a progress frame and then
  closes with code 1001 and no error event; timer 0 polls a processing and then a
  completed task. The handler is called once, with the success message, and no timer is
  left running.
\<close>

theorem close_then_poll_completes_once:
  "complete_calls
     (run not_json
        [Upload (Created ''T1''), WsOpen 0, WsMessage 0 (Progress 40 200 500 None),
         WsClose 0 1001, PollTick 0 (TaskStatus processing_250),
         PollTick 0 (TaskStatus completed_500)]
        init_state) = [(True, ''Successfully processed 500 products'')] \<and>
   intervals
     (run not_json
        [Upload (Created ''T1''), WsOpen 0, WsMessage 0 (Progress 40 200 500 None),
         WsClose 0 1001, PollTick 0 (TaskStatus processing_250),
         PollTick 0 (TaskStatus completed_500)]
        init_state) = []"
  by (simp add: step_def handleFileUpload_def connectWebSocket_def updateProgress_def
      init_state_def ws_onmessage_def ws_onclose_def pollUploadStatus_def
      set_ready_def poll_tick_def poll_errors_def Let_def clearInterval_def ws_close_def
      handleUploadComplete_def loadProducts_def showToast_def show_nat.simps digit_char_def
      processing_250_def completed_500_def)


section \<open>Error display\<close>









section \<open>Errors text that does not decode\<close>







section \<open>Rejected uploads\<close>

text \<open>
  C9. When the upload request yields no task identifier (the fetch rejects, the answer is
  not 2xx, or its body does not decode), \<^verbatim>\<open>handleFileUpload\<close> opens no socket, starts no
  polling timer, leaves the current task identifier alone, hides the progress bar and shows
  the failure message as a toast and in the result area.
\<close>

theorem rejected_upload_starts_no_tracking:
  assumes "rejected response"
  shows "sockets (handleFileUpload response s) = sockets s \<and>
         uploadWebSocket (handleFileUpload response s) = uploadWebSocket s \<and>
         intervals (handleFileUpload response s) = intervals s \<and>
         next_interval (handleFileUpload response s) = next_interval s \<and>
         currentUploadTaskId (handleFileUpload response s) = currentUploadTaskId s \<and>
         complete_calls (handleFileUpload response s) = complete_calls s \<and>
         \<not> progress_container_shown (handleFileUpload response s) \<and>
         (\<exists>m. toasts (handleFileUpload response s) = toasts s @ [(''Upload failed: '' @ m, ''error'')] \<and>
              upload_result (handleFileUpload response s) = [ResultUploadFailed m])"
  using assms
  by (cases response)
     (simp_all add: handleFileUpload_def upload_failed_def showToast_def updateProgress_def Let_def)

theorem rejected_upload_starts_no_tracking_witness:
  "rejected (HttpError (Some ''Only CSV files are allowed'')) \<and>
   sockets (handleFileUpload (HttpError (Some ''Only CSV files are allowed'')) init_state) = [] \<and>
   intervals (handleFileUpload (HttpError (Some ''Only CSV files are allowed'')) init_state) = [] \<and>
   uploadWebSocket (handleFileUpload (HttpError (Some ''Only CSV files are allowed'')) init_state) = None \<and>
   toasts (handleFileUpload (HttpError (Some ''Only CSV files are allowed'')) init_state) =
     [(''Upload failed: Only CSV files are allowed'', ''error'')]"
proof -
  have a: "rejected (HttpError (Some ''Only CSV files are allowed''))" by simp
  have t: "toasts (handleFileUpload (HttpError (Some ''Only CSV files are allowed'')) init_state) =
     [(''Upload failed: Only CSV files are allowed'', ''error'')]"
    by (simp add: handleFileUpload_def upload_failed_def showToast_def updateProgress_def Let_def
        init_state_def or_else_def)
  have i: "sockets init_state = []" "intervals init_state = []" "uploadWebSocket init_state = None"
    by (simp_all add: init_state_def)
  show ?thesis
    using a t rejected_upload_starts_no_tracking [OF a, of init_state] by (simp add: i)
qed

section \<open>Delete all products\<close>

text \<open>
  C10. The input handler disables the confirm button exactly when the trimmed input differs
  from \<^verbatim>\<open>DELETE\<close>; \<^verbatim>\<open>performDeleteAll\<close> returns with the page unchanged, no request sent,
  when the trimmed input differs from \<^verbatim>\<open>DELETE\<close>, and sends exactly one request otherwise.
\<close>

theorem delete_all_requires_typed_DELETE:
  "confirmDeleteAllBtn_disabled (onDeleteAllInput v s0) = (js_trim v \<noteq> ''DELETE'') \<and>
   (js_trim (deleteAllConfirmInput_value s) \<noteq> ''DELETE'' \<longrightarrow> performDeleteAll response s = s) \<and>
   (delete_all_requests (performDeleteAll response s) \<noteq> delete_all_requests s \<longrightarrow>
      js_trim (deleteAllConfirmInput_value s) = ''DELETE'') \<and>
   (js_trim (deleteAllConfirmInput_value s) = ''DELETE'' \<longrightarrow>
      delete_all_requests (performDeleteAll response s) = Suc (delete_all_requests s))"
proof -
  have 1: "confirmDeleteAllBtn_disabled (onDeleteAllInput v s0) = (js_trim v \<noteq> ''DELETE'')"
    by (simp add: onDeleteAllInput_def Let_def)
  have 2: "performDeleteAll response s = s" if "js_trim (deleteAllConfirmInput_value s) \<noteq> ''DELETE''"
    using that by (simp add: performDeleteAll_def)
  have 4: "delete_all_requests (performDeleteAll response s) = Suc (delete_all_requests s)"
    if "js_trim (deleteAllConfirmInput_value s) = ''DELETE''"
    using that
    by (cases response)
       (simp_all add: performDeleteAll_def Let_def page_toast_def closeDeleteAllModal_def)
  from 1 2 4 show ?thesis by metis
qed

theorem delete_all_requires_typed_DELETE_witness:
  "js_trim '' DELETE  '' = ''DELETE'' \<and> js_trim ''delete'' \<noteq> ''DELETE'' \<and>
   \<not> confirmDeleteAllBtn_disabled (onDeleteAllInput '' DELETE  '' products_init) \<and>
   confirmDeleteAllBtn_disabled (onDeleteAllInput ''delete'' products_init) \<and>
   performDeleteAll (Deleted 3) (onDeleteAllInput ''delete'' products_init) =
     onDeleteAllInput ''delete'' products_init \<and>
   delete_all_requests (performDeleteAll (Deleted 3) (onDeleteAllInput '' DELETE  '' products_init)) = 1"
proof -
  have a: "js_trim '' DELETE  '' = ''DELETE''" by (simp add: js_trim_def js_whitespace_def)
  have b: "js_trim ''delete'' \<noteq> ''DELETE''" by (simp add: js_trim_def js_whitespace_def)
  have v: "deleteAllConfirmInput_value (onDeleteAllInput t products_init) = t" for t
    by (simp add: onDeleteAllInput_def Let_def)
  have r: "delete_all_requests (onDeleteAllInput t products_init) = 0" for t
    by (simp add: onDeleteAllInput_def Let_def products_init_def)
  show ?thesis
    using a b
      delete_all_requires_typed_DELETE [of "'' DELETE  ''" products_init
        "onDeleteAllInput '' DELETE  '' products_init" "Deleted 3"]
      delete_all_requires_typed_DELETE [of "''delete''" products_init
        "onDeleteAllInput ''delete'' products_init" "Deleted 3"]
    by (simp add: v r)
qed

end
